theory Spec2Isabelle
  imports Main
begin

section \<open>Commit selection of the repository detail page\<close>

text \<open>
  The development follows \<^verbatim>\<open>src/components/repo-detail.tsx\<close>: the component
  \<^verbatim>\<open>RepoDetail\<close> keeps the selected commit in the React state \<^verbatim>\<open>selectedSha\<close>,
  mirrors it into the query string of the page, reconciles it with the fetched commit
  list in the \<^verbatim>\<open>onSuccess\<close> callback of \<^verbatim>\<open>useCommits\<close>, and derives the
  commit that precedes the selected one.
\<close>

subsection \<open>Data\<close>

text \<open>
  A fetched commit. The component reads \<^verbatim>\<open>commit.sha\<close> and
  \<^verbatim>\<open>commit.commit.message\<close>; only the former takes part in the selection.
\<close>

record commit =
  sha :: string
  message :: string

text \<open>
  The value \<^verbatim>\<open>qs.parse\<close> gives for one parameter: a string, \<^verbatim>\<open>null\<close> (a key
  without \<^verbatim>\<open>=\<close>), or an array when the key is repeated. A key that does not occur is
  \<^verbatim>\<open>undefined\<close>, here \<open>None\<close>.
\<close>

datatype qvalue = QString string | QNull | QArray "string option list"

text \<open>
  \<^verbatim>\<open>history.location.search\<close> is held in parsed form, as the object
  \<^verbatim>\<open>qs.parse\<close> returns for it.
\<close>

type_synonym query = "string \<rightharpoonup> qvalue"

text \<open>An uncaught exception of the runtime: reading a property of \<^verbatim>\<open>undefined\<close>.\<close>

datatype error = TypeError

text \<open>
  What the component owns or acts upon: the React state \<^verbatim>\<open>selectedSha\<close>, the
  current location of the router, the calls of \<^verbatim>\<open>history.push\<close> made so far (oldest
  first) and the calls of \<^verbatim>\<open>toast.error\<close> made so far, each with its message and
  duration.
\<close>

record state =
  selectedSha :: string
  location :: query
  pushes :: "query list"
  toasts :: "(string \<times> nat) list"

subsection \<open>JavaScript primitives\<close>

text \<open>A string in a condition: the empty string is falsy.\<close>

definition truthy :: "string \<Rightarrow> bool" where
  "truthy s = (s \<noteq> [])"

text \<open>\<^verbatim>\<open>xs[i]\<close>: \<^verbatim>\<open>undefined\<close> outside the array.\<close>

definition at_index :: "'a list \<Rightarrow> int \<Rightarrow> 'a option" where
  "at_index xs i = (if 0 \<le> i \<and> i < int (length xs) then Some (xs ! nat i) else None)"

text \<open>\<^verbatim>\<open>xs.findIndex(p)\<close>: the first index whose element satisfies \<open>p\<close>, or \<open>-1\<close>.\<close>

fun findIndex :: "('a \<Rightarrow> bool) \<Rightarrow> 'a list \<Rightarrow> int" where
  "findIndex p [] = - 1"
| "findIndex p (x # xs) =
     (if p x then 0 else (let i = findIndex p xs in if i = - 1 then - 1 else i + 1))"

text \<open>\<^verbatim>\<open>xs.some(p)\<close>.\<close>

definition some :: "('a \<Rightarrow> bool) \<Rightarrow> 'a list \<Rightarrow> bool" where
  "some p xs = list_ex p xs"

text \<open>
  \<^verbatim>\<open>qs.stringify(obj)\<close> read back by \<^verbatim>\<open>qs.parse\<close>: one parameter for each
  field of the object literal, a field whose value is \<^verbatim>\<open>undefined\<close> left out.
\<close>

fun qs_stringify :: "(string \<times> qvalue option) list \<Rightarrow> query" where
  "qs_stringify [] = Map.empty"
| "qs_stringify ((k, None) # rest) = qs_stringify rest"
| "qs_stringify ((k, Some v) # rest) = (qs_stringify rest)(k \<mapsto> v)"

text \<open>\<^verbatim>\<open>history.push({ search })\<close>: the location changes and the call is recorded.\<close>

definition history_push :: "query \<Rightarrow> state \<Rightarrow> state" where
  "history_push q st = st\<lparr>location := q, pushes := pushes st @ [q]\<rparr>"

definition toast_error :: "string \<Rightarrow> nat \<Rightarrow> state \<Rightarrow> state" where
  "toast_error msg duration st = st\<lparr>toasts := toasts st @ [(msg, duration)]\<rparr>"

definition setSelectedSha :: "string \<Rightarrow> state \<Rightarrow> state" where
  "setSelectedSha s st = st\<lparr>selectedSha := s\<rparr>"

subsection \<open>The component\<close>

text \<open>
  Lines 28 to 32, the initial value of the state:
  \<^verbatim>\<open>(parsedQueryString?.sha as string) || ""\<close>. The result is \<open>None\<close> when the
  parameter is repeated: the value is then an array, which the declared type
  \<^verbatim>\<open>string\<close> of the state excludes.
\<close>

definition requestedSha :: "query \<Rightarrow> string option" where
  "requestedSha q =
     (case q ''sha'' of
        None \<Rightarrow> Some []
      | Some QNull \<Rightarrow> Some []
      | Some (QString s) \<Rightarrow> Some s
      | Some (QArray vs) \<Rightarrow> None)"

text \<open>Lines 36 to 41, the body of the effect that depends on \<^verbatim>\<open>selectedSha\<close>.\<close>

definition selection_effect :: "state \<Rightarrow> state" where
  "selection_effect st =
     (if truthy (selectedSha st) then
        (let currentQueryString = location st in
         history_push
           (qs_stringify [(''sha'', Some (QString (selectedSha st))),
                          (''key'', currentQueryString ''key'')])
           st)
      else st)"

text \<open>
  Lines 91 to 93, the commit before the selected one:
  \<^verbatim>\<open>selectedShaIndex !== -1 ? commits[selectedShaIndex + 1].sha : undefined\<close>.
  \<open>Inr None\<close> is the value \<^verbatim>\<open>undefined\<close>.
\<close>

definition selectedShaPrevious :: "commit list \<Rightarrow> string \<Rightarrow> error + string option" where
  "selectedShaPrevious commits selectedSha' =
     (let selectedShaIndex = findIndex (\<lambda>d. sha d = selectedSha') commits in
      if selectedShaIndex \<noteq> - 1 then
        (case at_index commits (selectedShaIndex + 1) of
           None \<Rightarrow> Inl TypeError
         | Some c \<Rightarrow> Inr (Some (sha c)))
      else Inr None)"

text \<open>
  The render that follows a state update. React renders again, and afterwards runs the
  effect again, only when \<^verbatim>\<open>selectedSha\<close> differs from its value at the previous
  render. The body of the render comes first: lines 91 to 93 are evaluated on the
  fetched commits and the new selection, and an exception there ends the render, so
  that the effect never runs. The value they compute, like the parsed message of
  lines 85 to 89, only feeds the elements handed to the child viewer.
\<close>

definition rerender :: "commit list \<Rightarrow> state \<Rightarrow> state \<Rightarrow> error + state" where
  "rerender commits prev st =
     (if selectedSha st \<noteq> selectedSha prev then
        (case selectedShaPrevious commits (selectedSha st) of
           Inl e \<Rightarrow> Inl e
         | Inr previousSha \<Rightarrow> Inr (selection_effect st))
      else Inr st)"

definition not_found_message :: string where
  "not_found_message =
     ''Hmm, we couldn't find a commit by that SHA. Reverting to the most recent commit.''"

text \<open>
  Lines 53 to 77, the callback \<^verbatim>\<open>onSuccess\<close>. Line 54 reads
  \<^verbatim>\<open>commits[0].sha\<close> before the length is tested on line 56.
\<close>

definition onSuccess :: "commit list \<Rightarrow> state \<Rightarrow> error + state" where
  "onSuccess commits st =
     (case at_index commits 0 of
        None \<Rightarrow> Inl TypeError
      | Some c0 \<Rightarrow>
          (let mostRecentCommitSha = sha c0 in
           if length commits > 0 then
             (if truthy (selectedSha st) then
                (if some (\<lambda>commit. sha commit = selectedSha st) commits then Inr st
                 else
                   Inr (setSelectedSha mostRecentCommitSha
                         (history_push (qs_stringify [(''sha'', Some (QString mostRecentCommitSha))])
                           (toast_error not_found_message 4000 st))))
              else Inr (setSelectedSha mostRecentCommitSha st))
           else Inr st))"

text \<open>
  One reconciliation pass: the callback, then the render its state update causes, with
  the effect of that render.
\<close>

definition reconcile :: "commit list \<Rightarrow> state \<Rightarrow> error + state" where
  "reconcile commits st =
     (case onSuccess commits st of
        Inl e \<Rightarrow> Inl e
      | Inr st' \<Rightarrow> rerender commits st st')"

text \<open>Two passes in succession over the same commit list.\<close>

definition reconcile_twice :: "commit list \<Rightarrow> state \<Rightarrow> error + state" where
  "reconcile_twice commits st =
     (case reconcile commits st of
        Inl e \<Rightarrow> Inl e
      | Inr st' \<Rightarrow> reconcile commits st')"

subsection \<open>Example data\<close>

text \<open>Three commits, newest first, and a component whose call logs are still empty.\<close>

definition c1 :: commit where
  "c1 = \<lparr>sha = ''c1'', message = ''Flat: latest data''\<rparr>"

definition c2 :: commit where
  "c2 = \<lparr>sha = ''c2'', message = ''Flat: latest data''\<rparr>"

definition c3 :: commit where
  "c3 = \<lparr>sha = ''c3'', message = ''Flat: latest data''\<rparr>"

definition example_state :: "string \<Rightarrow> query \<Rightarrow> state" where
  "example_state s q = \<lparr>selectedSha = s, location = q, pushes = [], toasts = []\<rparr>"

section \<open>Properties\<close>

subsection \<open>Auxiliary facts\<close>

lemma findIndex_ge: "- 1 \<le> findIndex p xs"
  by (induction xs) (auto simp: Let_def)

lemma findIndex_none: "(findIndex p xs = - 1) = (\<forall>x\<in>set xs. \<not> p x)"
proof (induction xs)
  case Nil
  then show ?case by simp
next
  case (Cons x xs)
  have "- 1 \<le> findIndex p xs" by (rule findIndex_ge)
  then have "findIndex p xs + 1 \<noteq> - 1" by arith
  with Cons show ?case by (simp add: Let_def)
qed

lemma findIndex_first:
  "i < length xs \<Longrightarrow> p (xs ! i) \<Longrightarrow> (\<forall>j<i. \<not> p (xs ! j)) \<Longrightarrow> findIndex p xs = int i"
proof (induction xs arbitrary: i)
  case Nil
  then show ?case by simp
next
  case (Cons x xs)
  show ?case
  proof (cases i)
    case 0
    with Cons.prems show ?thesis by simp
  next
    case (Suc k)
    with Cons.prems have "\<not> p x" by auto
    moreover have "\<forall>j<k. \<not> p (xs ! j)"
    proof (intro allI impI)
      fix j assume "j < k"
      then have "Suc j < i" using Suc by simp
      with Cons.prems(3) have "\<not> p ((x # xs) ! Suc j)" by blast
      then show "\<not> p (xs ! j)" by simp
    qed
    then have "findIndex p xs = int k"
      using Cons.IH[of k] Cons.prems Suc by simp
    ultimately show ?thesis using Suc by (simp add: Let_def)
  qed
qed

lemma at_index_first: "commits \<noteq> [] \<Longrightarrow> at_index commits 0 = Some (hd commits)"
  by (cases commits) (simp_all add: at_index_def)

lemma some_iff: "some (\<lambda>commit. sha commit = s) commits = (s \<in> sha ` set commits)"
  by (auto simp: some_def list_ex_iff)

text \<open>The three branches of the callback on a commit list that is not empty.\<close>

lemma onSuccess_present:
  "selectedSha st \<noteq> [] \<Longrightarrow> selectedSha st \<in> sha ` set commits \<Longrightarrow> onSuccess commits st = Inr st"
  by (cases commits) (auto simp: onSuccess_def at_index_def truthy_def some_iff)

lemma onSuccess_absent:
  "commits \<noteq> [] \<Longrightarrow> selectedSha st \<noteq> [] \<Longrightarrow> selectedSha st \<notin> sha ` set commits \<Longrightarrow>
   onSuccess commits st =
     Inr (setSelectedSha (sha (hd commits))
           (history_push (qs_stringify [(''sha'', Some (QString (sha (hd commits))))])
             (toast_error not_found_message 4000 st)))"
  by (simp add: onSuccess_def at_index_first truthy_def some_iff Let_def)

lemma onSuccess_unselected:
  "commits \<noteq> [] \<Longrightarrow> selectedSha st = [] \<Longrightarrow>
   onSuccess commits st = Inr (setSelectedSha (sha (hd commits)) st)"
  by (simp add: onSuccess_def at_index_first truthy_def Let_def)

lemmas example_defs =
  c1_def c2_def c3_def example_state_def

lemmas component_defs =
  reconcile_def onSuccess_def at_index_def truthy_def some_def setSelectedSha_def
  history_push_def toast_error_def rerender_def selection_effect_def selectedShaPrevious_def
  Let_def

subsection \<open>The selection after a reconciliation pass\<close>

text \<open>
  C1. For a commit list that is not empty, whatever the component holds as selection
  and whatever the location it was started from, the reconciliation of lines 53 to 77
  returns without an exception and leaves in \<^verbatim>\<open>selectedSha\<close> the identifier of a
  commit of the list.
\<close>

theorem onSuccess_selection_in_commits:
  assumes "commits \<noteq> []"
  shows "\<exists>st'. onSuccess commits st = Inr st' \<and> selectedSha st' \<in> sha ` set commits"
proof -
  consider (present) "selectedSha st \<noteq> []" "selectedSha st \<in> sha ` set commits"
    | (absent) "selectedSha st \<noteq> []" "selectedSha st \<notin> sha ` set commits"
    | (unselected) "selectedSha st = []"
    by blast
  then show ?thesis
  proof cases
    case present
    then show ?thesis
      by (simp add: onSuccess_present)
  next
    case absent
    with assms show ?thesis
      by (simp add: onSuccess_absent setSelectedSha_def)
  next
    case unselected
    with assms show ?thesis
      by (simp add: onSuccess_unselected setSelectedSha_def)
  qed
qed

theorem onSuccess_selection_in_commits_witness:
  "[c1] \<noteq> [] \<and>
   (\<exists>st'. onSuccess [c1] (example_state ''deadbeef'' [''sha'' \<mapsto> QString ''deadbeef''])
            = Inr st' \<and>
          selectedSha st' \<in> sha ` set [c1])"
proof -
  have h: "[c1] \<noteq> []" by simp
  show ?thesis
    using h onSuccess_selection_in_commits [OF h,
        of "example_state ''deadbeef'' [''sha'' \<mapsto> QString ''deadbeef'']"]
    by simp
qed



text \<open>
  C4. When the selection the component starts from is not empty and is the identifier
  of no commit of a list that is not empty, the reconciliation of lines 53 to 77
  selects the first (most recent) commit, calls \<^verbatim>\<open>toast.error\<close> exactly once, and
  writes the location with one call of \<^verbatim>\<open>history.push\<close>: afterwards the location
  holds the \<^verbatim>\<open>sha\<close> parameter, equal to the new selection, and nothing else.
\<close>

theorem onSuccess_stale_recovery:
  assumes "commits \<noteq> []" and "selectedSha st \<noteq> []" and "selectedSha st \<notin> sha ` set commits"
  shows "\<exists>st'. onSuccess commits st = Inr st'
           \<and> selectedSha st' = sha (hd commits)
           \<and> toasts st' = toasts st @ [(not_found_message, 4000)]
           \<and> location st' = [''sha'' \<mapsto> QString (sha (hd commits))]
           \<and> pushes st' = pushes st @ [location st']"
  using assms
  by (simp add: onSuccess_absent setSelectedSha_def history_push_def toast_error_def)

theorem onSuccess_stale_recovery_witness:
  "[c1, c2, c3] \<noteq> [] \<and>
   selectedSha (example_state ''deadbeef'' [''sha'' \<mapsto> QString ''deadbeef'']) \<noteq> [] \<and>
   selectedSha (example_state ''deadbeef'' [''sha'' \<mapsto> QString ''deadbeef''])
     \<notin> sha ` set [c1, c2, c3] \<and>
   (\<exists>st'. onSuccess [c1, c2, c3] (example_state ''deadbeef'' [''sha'' \<mapsto> QString ''deadbeef''])
            = Inr st' \<and>
          selectedSha st' = ''c1'' \<and>
          toasts st' = [(not_found_message, 4000)] \<and>
          location st' = [''sha'' \<mapsto> QString ''c1''] \<and>
          pushes st' = [location st'])"
proof -
  let ?st = "example_state ''deadbeef'' [''sha'' \<mapsto> QString ''deadbeef'']"
  have h1: "[c1, c2, c3] \<noteq> []" by simp
  have h2: "selectedSha ?st \<noteq> []" by (simp add: example_defs)
  have h3: "selectedSha ?st \<notin> sha ` set [c1, c2, c3]" by (simp add: example_defs)
  have t: "toasts ?st = []" and p: "pushes ?st = []" by (simp_all add: example_defs)
  have c: "sha (hd [c1, c2, c3]) = ''c1''" by (simp add: example_defs)
  from onSuccess_stale_recovery [OF h1 h2 h3] obtain st' where
    "onSuccess [c1, c2, c3] ?st = Inr st'" and "selectedSha st' = sha (hd [c1, c2, c3])"
    and "toasts st' = toasts ?st @ [(not_found_message, 4000)]"
    and "location st' = [''sha'' \<mapsto> QString (sha (hd [c1, c2, c3]))]"
    and "pushes st' = pushes ?st @ [location st']"
    by blast
  with t p c have "\<exists>st'. onSuccess [c1, c2, c3] ?st = Inr st' \<and> selectedSha st' = ''c1'' \<and>
      toasts st' = [(not_found_message, 4000)] \<and> location st' = [''sha'' \<mapsto> QString ''c1''] \<and>
      pushes st' = [location st']"
    by simp
  with h1 h2 h3 show ?thesis by blast
qed

text \<open>
  C9. When the requested identifier is empty and nothing is selected, a pass over a
  commit list of at least one element should select the first (most recent) commit
  and write the location. With the one-commit list \<open>c1\<close> the callback selects
  \<open>c1\<close> and writes nothing itself; the render that follows evaluates line 93 with the
  only commit selected, reads \<^verbatim>\<open>commits[1].sha\<close> and raises a TypeError, so that
  the effect of lines 35 to 42, which alone would write the location, never runs.
\<close>

theorem reconcile_single_commit_throws:
  "requestedSha (location (example_state [] Map.empty)) = Some [] \<and>
   onSuccess [c1] (example_state [] Map.empty) =
     Inr \<lparr>selectedSha = ''c1'', location = Map.empty, pushes = [], toasts = []\<rparr> \<and>
   reconcile [c1] (example_state [] Map.empty) = Inl TypeError"
  by (simp add: requestedSha_def component_defs example_defs)

subsection \<open>The empty commit list\<close>

text \<open>
  C3. Reconciling against an empty commit list should yield no selection and raise
  nothing. The callback instead raises a TypeError in every state: line 54 reads the
  property \<^verbatim>\<open>sha\<close> of \<^verbatim>\<open>commits[0]\<close>, which is \<^verbatim>\<open>undefined\<close>, before
  line 56 tests the length.
\<close>

theorem onSuccess_empty_throws: "onSuccess [] st = Inl TypeError"
  by (simp add: onSuccess_def at_index_def)

subsection \<open>Writes to the location\<close>

text \<open>
  C10. When the selection is not empty, the effect of lines 35 to 42 makes one call of
  \<^verbatim>\<open>history.push\<close>; the query it installs has the selection as \<^verbatim>\<open>sha\<close>, has for
  \<^verbatim>\<open>key\<close> what the location had before (nothing if it had none), and has no other
  parameter. When the selection is empty the effect changes nothing.
\<close>

theorem selection_effect_query:
  "(selectedSha st \<noteq> [] \<longrightarrow>
      pushes (selection_effect st) = pushes st @ [location (selection_effect st)]
      \<and> location (selection_effect st) ''sha'' = Some (QString (selectedSha st))
      \<and> location (selection_effect st) ''key'' = location st ''key''
      \<and> dom (location (selection_effect st)) \<subseteq> {''sha'', ''key''})
   \<and> (selectedSha st = [] \<longrightarrow> selection_effect st = st)"
  by (cases "location st ''key''")
     (auto simp: selection_effect_def history_push_def truthy_def Let_def split: if_splits)

theorem selection_effect_query_witness:
  "selectedSha (example_state ''c2''
       [''sha'' \<mapsto> QString ''c1'', ''key'' \<mapsto> QString ''k'', ''tab'' \<mapsto> QString ''raw'']) \<noteq> [] \<and>
   location (selection_effect (example_state ''c2''
       [''sha'' \<mapsto> QString ''c1'', ''key'' \<mapsto> QString ''k'', ''tab'' \<mapsto> QString ''raw'']))
     = [''key'' \<mapsto> QString ''k'', ''sha'' \<mapsto> QString ''c2''] \<and>
   selectedSha (example_state [] [''tab'' \<mapsto> QString ''raw'']) = [] \<and>
   selection_effect (example_state [] [''tab'' \<mapsto> QString ''raw''])
     = example_state [] [''tab'' \<mapsto> QString ''raw'']"
proof -
  let ?st = "example_state ''c2''
       [''sha'' \<mapsto> QString ''c1'', ''key'' \<mapsto> QString ''k'', ''tab'' \<mapsto> QString ''raw'']"
  let ?emp = "example_state [] [''tab'' \<mapsto> QString ''raw'']"
  have h1: "selectedSha ?st \<noteq> []" by (simp add: example_defs)
  have h2: "selectedSha ?emp = []" by (simp add: example_defs)
  have d: "dom (location (selection_effect ?st)) \<subseteq> {''sha'', ''key''}"
    and s: "location (selection_effect ?st) ''sha'' = Some (QString (selectedSha ?st))"
    and k: "location (selection_effect ?st) ''key'' = location ?st ''key''"
    using selection_effect_query [of ?st] h1 by blast+
  have "location (selection_effect ?st) x = [''key'' \<mapsto> QString ''k'', ''sha'' \<mapsto> QString ''c2''] x"
    for x
  proof (cases "x = ''sha'' \<or> x = ''key''")
    case True
    with s k show ?thesis by (auto simp: example_defs)
  next
    case False
    with d have "location (selection_effect ?st) x = None" by blast
    with False show ?thesis by simp
  qed
  then have "location (selection_effect ?st) = [''key'' \<mapsto> QString ''k'', ''sha'' \<mapsto> QString ''c2'']"
    by (rule ext)
  moreover have "selection_effect ?emp = ?emp"
    using selection_effect_query [of ?emp] h2 by blast
  ultimately show ?thesis using h1 h2 by blast
qed

text \<open>
  C5. A change of the selection should be written to the location at most once. In
  the recovery of a selection that is not in the list it is written twice: the
  callback calls \<^verbatim>\<open>history.push\<close> on line 68, and the state update of line 71 then
  runs the effect of lines 35 to 42, which calls it again. Started at
  \<^verbatim>\<open>?sha=deadbeef\<close> with the commits \<open>c1\<close>, \<open>c2\<close>, \<open>c3\<close>, one pass records two
  calls, both carrying \<open>c1\<close>.
\<close>

theorem reconcile_stale_pushes_twice:
  "reconcile [c1, c2, c3] (example_state ''deadbeef'' [''sha'' \<mapsto> QString ''deadbeef'']) =
     Inr \<lparr>selectedSha = ''c1'',
          location = [''sha'' \<mapsto> QString ''c1''],
          pushes = [[''sha'' \<mapsto> QString ''c1''], [''sha'' \<mapsto> QString ''c1'']],
          toasts = [(not_found_message, 4000)]\<rparr>"
  by (simp add: component_defs example_defs)

text \<open>
  C6. Two passes in succession over the same inputs should end in the selection of a
  single pass and write the location at most once. The selection is indeed that of a
  single pass, but in the recovery of a selection that is not in the list the first
  pass alone has already written twice: after both passes the record of calls of
  \<^verbatim>\<open>history.push\<close> holds two entries.
\<close>

theorem reconcile_twice_writes_two:
  "reconcile_twice [c1, c2, c3] (example_state ''deadbeef'' [''sha'' \<mapsto> QString ''deadbeef'']) =
     Inr \<lparr>selectedSha = ''c1'',
          location = [''sha'' \<mapsto> QString ''c1''],
          pushes = [[''sha'' \<mapsto> QString ''c1''], [''sha'' \<mapsto> QString ''c1'']],
          toasts = [(not_found_message, 4000)]\<rparr>"
  by (simp add: reconcile_twice_def component_defs example_defs)

subsection \<open>The previous commit\<close>

text \<open>
  C8. When the first occurrence of the selected identifier is at index \<open>i\<close> and
  \<open>i\<close> is not the last index of the list, the previous commit is the identifier of
  the element at index \<open>i + 1\<close>; when the selected identifier is the identifier of no
  commit of the list, it is \<^verbatim>\<open>undefined\<close>.
\<close>

theorem selectedShaPrevious_next_or_undefined:
  "(i < length commits \<and> sha (commits ! i) = s \<and> (\<forall>j<i. sha (commits ! j) \<noteq> s)
        \<and> i + 1 < length commits
      \<longrightarrow> selectedShaPrevious commits s = Inr (Some (sha (commits ! (i + 1)))))
   \<and> (s \<notin> sha ` set commits \<longrightarrow> selectedShaPrevious commits s = Inr None)"
proof (intro conjI impI)
  assume a: "i < length commits \<and> sha (commits ! i) = s \<and> (\<forall>j<i. sha (commits ! j) \<noteq> s)
        \<and> i + 1 < length commits"
  then have "findIndex (\<lambda>d. sha d = s) commits = int i"
    by (intro findIndex_first) auto
  with a show "selectedShaPrevious commits s = Inr (Some (sha (commits ! (i + 1))))"
    by (simp add: selectedShaPrevious_def at_index_def nat_add_distrib)
next
  assume "s \<notin> sha ` set commits"
  then have "findIndex (\<lambda>d. sha d = s) commits = - 1"
    by (auto simp: findIndex_none)
  then show "selectedShaPrevious commits s = Inr None"
    by (simp add: selectedShaPrevious_def)
qed

theorem selectedShaPrevious_next_or_undefined_witness:
  "(1::nat) < length [c1, c2, c3] \<and> sha ([c1, c2, c3] ! 1) = ''c2'' \<and>
   sha ([c1, c2, c3] ! 0) \<noteq> ''c2'' \<and> (1::nat) + 1 < length [c1, c2, c3] \<and>
   selectedShaPrevious [c1, c2, c3] ''c2'' = Inr (Some ''c3'') \<and>
   ''deadbeef'' \<notin> sha ` set [c1, c2, c3] \<and>
   selectedShaPrevious [c1, c2, c3] ''deadbeef'' = Inr None"
proof -
  have h1: "(1::nat) < length [c1, c2, c3] \<and> sha ([c1, c2, c3] ! 1) = ''c2'' \<and>
      (\<forall>j<1::nat. sha ([c1, c2, c3] ! j) \<noteq> ''c2'') \<and> (1::nat) + 1 < length [c1, c2, c3]"
    by (simp add: example_defs nth_Cons')
  have h2: "''deadbeef'' \<notin> sha ` set [c1, c2, c3]" by (simp add: example_defs)
  have "selectedShaPrevious [c1, c2, c3] ''c2'' = Inr (Some (sha ([c1, c2, c3] ! (1 + 1))))"
    using selectedShaPrevious_next_or_undefined [of 1 "[c1, c2, c3]" "''c2''"] h1 by blast
  then have r1: "selectedShaPrevious [c1, c2, c3] ''c2'' = Inr (Some ''c3'')"
    by (simp add: example_defs)
  have r2: "selectedShaPrevious [c1, c2, c3] ''deadbeef'' = Inr None"
    using selectedShaPrevious_next_or_undefined [of 0 "[c1, c2, c3]" "''deadbeef''"] h2 by blast
  have h0: "sha ([c1, c2, c3] ! 0) \<noteq> ''c2''" by (simp add: example_defs)
  from h0 h1 h2 r1 r2 show ?thesis by blast
qed

text \<open>
  C2. When the selected identifier is that of the last commit of the list, the
  previous commit should be \<^verbatim>\<open>undefined\<close>. Line 93 instead reads the property
  \<^verbatim>\<open>sha\<close> of \<^verbatim>\<open>commits[selectedShaIndex + 1]\<close>, which is \<^verbatim>\<open>undefined\<close> one past
  the end, and raises a TypeError: with the commits \<open>c1\<close>, \<open>c2\<close>, \<open>c3\<close> and \<open>c3\<close>
  selected, no value is returned.
\<close>

theorem selectedShaPrevious_last_throws:
  "selectedShaPrevious [c1, c2, c3] ''c3'' = Inl TypeError"
  by (simp add: selectedShaPrevious_def at_index_def example_defs)

end
